theory Spec2Isabelle
  imports Complex_Main
begin

section \<open>Common data\<close>

text \<open>
  The three DASS domains, the five severity bands and the Python exceptions the modelled
  functions can raise. Python floats are modelled as exact rationals (\<open>rat\<close>): every
  statement below is about the arithmetic the code writes down, not about IEEE rounding
  of its intermediate results.
\<close>

datatype domain = Depression | Anxiety | Stress

datatype severity = Normal | Mild | Moderate | Severe | Extremely_severe

text \<open>
  Python numbers: an int, or a float (an exact rational here). A value handed to the
  scorer as a response is a number or anything else (\<^verbatim>\<open>None\<close>, a string, a list);
  \<^verbatim>\<open>True\<close> and \<^verbatim>\<open>False\<close> are the ints 1 and 0, as \<^verbatim>\<open>bool\<close> is a subclass of
  \<^verbatim>\<open>int\<close>.
\<close>

datatype pynum = PyInt int | PyFloat rat

datatype pyval = Num pynum | NotNum

datatype py_error =
    ValueError_count nat        \<comment> \<open>"Expected 20 responses, got n"\<close>
  | ValueError_range nat pyval  \<comment> \<open>"Response i must be between 0-3, got r"\<close>
  | IndexError
  | ZeroDivisionError
  | AttributeError
  | TypeError

fun num_value :: "pynum \<Rightarrow> rat" where
  "num_value (PyInt i) = of_int i"
| "num_value (PyFloat x) = x"

text \<open>
  \<^verbatim>\<open>+\<close> and \<^verbatim>\<open>*\<close> on numbers: two ints give an int, a float on either side gives a
  float. \<^verbatim>\<open>int(x)\<close> truncates a float towards zero.
\<close>

fun py_add :: "pynum \<Rightarrow> pynum \<Rightarrow> pynum" where
  "py_add (PyInt a) (PyInt b) = PyInt (a + b)"
| "py_add a b = PyFloat (num_value a + num_value b)"

fun py_mul :: "pynum \<Rightarrow> pynum \<Rightarrow> pynum" where
  "py_mul (PyInt a) (PyInt b) = PyInt (a * b)"
| "py_mul a b = PyFloat (num_value a * num_value b)"

fun py_int :: "pynum \<Rightarrow> int" where
  "py_int (PyInt i) = i"
| "py_int (PyFloat x) = (if 0 \<le> x then \<lfloor>x\<rfloor> else \<lceil>x\<rceil>)"

fun domain_name :: "domain \<Rightarrow> string" where
  "domain_name Depression = ''depression''"
| "domain_name Anxiety = ''anxiety''"
| "domain_name Stress = ''stress''"

fun severity_name :: "severity \<Rightarrow> string" where
  "severity_name Normal = ''normal''"
| "severity_name Mild = ''mild''"
| "severity_name Moderate = ''moderate''"
| "severity_name Severe = ''severe''"
| "severity_name Extremely_severe = ''extremely_severe''"

text \<open>
  Python's \<^verbatim>\<open>round(x, ndigits)\<close> on exact values: round to the nearest multiple of
  \<open>10 ^ - ndigits\<close>, a tie going to the even neighbour.
\<close>

definition round_half_even :: "rat \<Rightarrow> int" where
  "round_half_even x =
     (let f = \<lfloor>x\<rfloor>; d = x - of_int f
      in if d < 1 / 2 then f
         else if 1 / 2 < d then f + 1
         else if even f then f else f + 1)"

definition py_round :: "rat \<Rightarrow> nat \<Rightarrow> rat" where
  "py_round x ndigits = of_int (round_half_even (x * 10 ^ ndigits)) / 10 ^ ndigits"

text \<open>
  \<^verbatim>\<open>d.get(key, default)\<close> on a dictionary kept as an association list.
\<close>

definition dict_get :: "('k \<times> 'v) list \<Rightarrow> 'k \<Rightarrow> 'v \<Rightarrow> 'v" where
  "dict_get d k dflt = (case map_of d k of None \<Rightarrow> dflt | Some v \<Rightarrow> v)"

text \<open>
  Both severity look-ups walk a threshold dictionary in insertion order and return the
  first band whose closed interval holds the score:
  \<^verbatim>\<open>
  for severity, (min_val, max_val) in thresholds.items():
      if min_val <= score <= max_val:
          return severity
  \<close>
\<close>

fun first_band :: "(severity \<times> int \<times> int) list \<Rightarrow> rat \<Rightarrow> severity option" where
  "first_band [] score = None"
| "first_band ((sev, min_val, max_val) # rest) score =
     (if of_int min_val \<le> score \<and> score \<le> of_int max_val then Some sev
      else first_band rest score)"

section \<open>DASS-21 direct scorer (services/dass21\_scoring\_service.py)\<close>

text \<open>
  The values of the result dictionary of \<^verbatim>\<open>score_assessment\<close>.
\<close>

datatype jval =
    JInt int
  | JFloat rat
  | JStr string
  | JList "jval list"
  | JDict "(string \<times> jval) list"

definition QUESTION_MAPPING :: "(nat \<times> domain \<times> int) list" where
  "QUESTION_MAPPING =
    [(0, Depression, 1), (1, Anxiety, 1), (2, Stress, 1),
     (3, Depression, 1), (4, Anxiety, 1), (5, Stress, 1),
     (6, Depression, 1), (7, Anxiety, 1), (8, Stress, 1),
     (9, Depression, 1), (10, Anxiety, 1), (11, Stress, 1),
     (12, Depression, 1), (13, Anxiety, 1), (14, Stress, 1),
     (15, Depression, 1), (16, Anxiety, 1), (17, Stress, 1),
     (18, Depression, 1), (19, Anxiety, 1)]"

fun SEVERITY_THRESHOLDS :: "domain \<Rightarrow> (severity \<times> int \<times> int) list" where
  "SEVERITY_THRESHOLDS Depression =
     [(Normal, 0, 9), (Mild, 10, 13), (Moderate, 14, 20), (Severe, 21, 27),
      (Extremely_severe, 28, 42)]"
| "SEVERITY_THRESHOLDS Anxiety =
     [(Normal, 0, 7), (Mild, 8, 9), (Moderate, 10, 14), (Severe, 15, 19),
      (Extremely_severe, 20, 42)]"
| "SEVERITY_THRESHOLDS Stress =
     [(Normal, 0, 14), (Mild, 15, 18), (Moderate, 19, 25), (Severe, 26, 33),
      (Extremely_severe, 34, 42)]"

definition total_questions :: nat where
  "total_questions = 20"

text \<open>
  The loop of \<^verbatim>\<open>_calculate_subscale_score\<close> over \<^verbatim>\<open>QUESTION_MAPPING.items()\<close>,
  with the accumulators \<^verbatim>\<open>score\<close> and \<^verbatim>\<open>count\<close>; \<^verbatim>\<open>responses[question_idx]\<close>
  raises IndexError past the end of the list, and adding the product of a value that is
  not a number to the score raises TypeError.
\<close>

fun subscale_loop ::
  "pyval list \<Rightarrow> domain \<Rightarrow> (nat \<times> domain \<times> int) list \<Rightarrow> pynum \<times> nat
     \<Rightarrow> py_error + (pynum \<times> nat)" where
  "subscale_loop responses subscale [] acc = Inr acc"
| "subscale_loop responses subscale ((question_idx, sub, weight) # rest) (score, count) =
     (if sub = subscale then
        (if question_idx < length responses
         then (case responses ! question_idx of
                 Num response \<Rightarrow>
                   subscale_loop responses subscale rest
                     (py_add score (py_mul response (PyInt weight)), count + 1)
               | NotNum \<Rightarrow> Inl TypeError)
         else Inl IndexError)
      else subscale_loop responses subscale rest (score, count))"

definition calculate_subscale_score :: "pyval list \<Rightarrow> domain \<Rightarrow> py_error + pynum" where
  "calculate_subscale_score responses subscale =
     (case subscale_loop responses subscale QUESTION_MAPPING (PyInt 0, 0) of
        Inl e \<Rightarrow> Inl e
      | Inr (score, count) \<Rightarrow> Inr (if count > 0 then py_mul score (PyInt 2) else PyInt 0))"

definition get_severity :: "rat \<Rightarrow> domain \<Rightarrow> severity" where
  "get_severity score subscale =
     (case first_band (SEVERITY_THRESHOLDS subscale) score of
        Some sev \<Rightarrow> sev
      | None \<Rightarrow> Extremely_severe)"

definition get_overall_severity :: "rat \<Rightarrow> severity" where
  "get_overall_severity overall_score =
     (if overall_score \<le> 10 then Normal
      else if overall_score \<le> 13 then Mild
      else if overall_score \<le> 20 then Moderate
      else if overall_score \<le> 27 then Severe
      else Extremely_severe)"

text \<open>
  \<^verbatim>\<open>_get_interpretation\<close> and \<^verbatim>\<open>_get_recommendations\<close> only compare the three
  scores, so they take their values.
\<close>

definition get_interpretation :: "rat \<Rightarrow> rat \<Rightarrow> rat \<Rightarrow> string" where
  "get_interpretation depression anxiety stress =
     (let highest = max depression (max anxiety stress)
      in if highest \<le> 9 then
           ''Your mental health appears to be within normal range. Continue maintaining healthy habits.''
         else if highest \<le> 13 then
           ''You may be experiencing mild symptoms. Consider stress management techniques.''
         else if highest \<le> 20 then
           ''You may be experiencing moderate symptoms. Professional support is recommended.''
         else if highest \<le> 27 then
           ''You may be experiencing severe symptoms. Please seek professional help.''
         else
           ''You may be experiencing extremely severe symptoms. Immediate professional support is strongly recommended.'')"

definition get_recommendations :: "rat \<Rightarrow> rat \<Rightarrow> rat \<Rightarrow> string list" where
  "get_recommendations depression anxiety stress =
     (let recommendations =
            (if depression > 13 then
               [''Consider speaking with a mental health professional about depression symptoms'',
                ''Engage in regular physical activity and maintain social connections'']
             else [])
          @ (if anxiety > 9 then
               [''Practice relaxation techniques such as deep breathing or meditation'',
                ''Limit caffeine intake and maintain regular sleep schedule'']
             else [])
          @ (if stress > 18 then
               [''Identify and address major sources of stress in your life'',
                ''Practice time management and set realistic goals'']
             else [])
      in if recommendations = [] then
           [''Maintain your current healthy lifestyle and coping strategies'',
            ''Continue regular self-care and stress management practices'']
         else recommendations)"

text \<open>
  The validation loop of \<^verbatim>\<open>score_assessment\<close>:
  \<^verbatim>\<open>if not isinstance(response, (int, float)) or response < 0 or response > 3\<close>.
  The first response that is not a number, or is below 0 or above 3, raises, with its
  index. A float within 0 and 3, such as 1.5, passes.
\<close>

fun validate_responses :: "nat \<Rightarrow> pyval list \<Rightarrow> py_error option" where
  "validate_responses i [] = None"
| "validate_responses i (response # rest) =
     (if (case response of
            NotNum \<Rightarrow> True
          | Num r \<Rightarrow> num_value r < 0 \<or> num_value r > 3)
      then Some (ValueError_range i response)
      else validate_responses (Suc i) rest)"

text \<open>
  One subscale entry of the result: \<^verbatim>\<open>int(score)\<close>, the severity and
  \<^verbatim>\<open>round((score / 42) * 100, 1)\<close>.
\<close>

definition subscale_entry :: "pynum \<Rightarrow> severity \<Rightarrow> jval" where
  "subscale_entry score sev =
     JDict [(''score'', JInt (py_int score)),
            (''severity'', JStr (severity_name sev)),
            (''percentage'', JFloat (py_round ((num_value score / 42) * 100) 1))]"

definition score_assessment :: "pyval list \<Rightarrow> py_error + (string \<times> jval) list" where
  "score_assessment responses =
     (if length responses \<noteq> total_questions then Inl (ValueError_count (length responses))
      else case validate_responses 0 responses of
        Some e \<Rightarrow> Inl e
      | None \<Rightarrow>
        (case calculate_subscale_score responses Depression of
           Inl e \<Rightarrow> Inl e
         | Inr depression_score \<Rightarrow>
        (case calculate_subscale_score responses Anxiety of
           Inl e \<Rightarrow> Inl e
         | Inr anxiety_score \<Rightarrow>
        (case calculate_subscale_score responses Stress of
           Inl e \<Rightarrow> Inl e
         | Inr stress_score \<Rightarrow>
           (let depression_severity = get_severity (num_value depression_score) Depression;
                anxiety_severity = get_severity (num_value anxiety_score) Anxiety;
                stress_severity = get_severity (num_value stress_score) Stress;
                overall_score =
                  (num_value depression_score + num_value anxiety_score
                     + num_value stress_score) / 3;
                overall_severity = get_overall_severity overall_score
            in Inr
              [(''depression'', subscale_entry depression_score depression_severity),
               (''anxiety'', subscale_entry anxiety_score anxiety_severity),
               (''stress'', subscale_entry stress_score stress_severity),
               (''overall'',
                  JDict [(''score'', JFloat (py_round overall_score 1)),
                         (''severity'', JStr (severity_name overall_severity)),
                         (''percentage'', JFloat (py_round ((overall_score / 42) * 100) 1))]),
               (''interpretation'',
                  JStr (get_interpretation (num_value depression_score)
                          (num_value anxiety_score) (num_value stress_score))),
               (''recommendations'',
                  JList (map JStr
                    (get_recommendations (num_value depression_score)
                       (num_value anxiety_score) (num_value stress_score))))])))))"

text \<open>
  Reading the result: \<^verbatim>\<open>result[section][field]\<close>, as a caller would, with \<open>None\<close>
  for a raised error, a missing key or a section that is not a dictionary.
\<close>

fun result_field :: "py_error + (string \<times> jval) list \<Rightarrow> string \<Rightarrow> string \<Rightarrow> jval option" where
  "result_field (Inl e) section field = None"
| "result_field (Inr result) section field =
     (case map_of result section of
        Some (JDict d) \<Rightarrow> map_of d field
      | _ \<Rightarrow> None)"

section \<open>Weighted AI assessment engine (models/weighted\_ai\_assessment.py)\<close>

datatype source = Voice_analysis | Sentiment_analysis | Keyword_matching | Facial_analysis

datatype risk = Low | Medium | High | Critical

definition component_weights :: "(source \<times> rat) list" where
  "component_weights =
     [(Voice_analysis, 40 / 100), (Sentiment_analysis, 25 / 100),
      (Keyword_matching, 20 / 100), (Facial_analysis, 15 / 100)]"

fun severity_thresholds :: "domain \<Rightarrow> (severity \<times> int \<times> int) list" where
  "severity_thresholds Depression =
     [(Normal, 0, 9), (Mild, 10, 13), (Moderate, 14, 20), (Severe, 21, 27),
      (Extremely_severe, 28, 100)]"
| "severity_thresholds Anxiety =
     [(Normal, 0, 7), (Mild, 8, 9), (Moderate, 10, 14), (Severe, 15, 19),
      (Extremely_severe, 20, 100)]"
| "severity_thresholds Stress =
     [(Normal, 0, 14), (Mild, 15, 18), (Moderate, 19, 25), (Severe, 26, 33),
      (Extremely_severe, 34, 100)]"

text \<open>
  One entry of \<^verbatim>\<open>component_scores\<close>: the dictionary
  \<^verbatim>\<open>{'depression': .., 'anxiety': .., 'stress': .., 'confidence': ..}\<close>.
\<close>

record component =
  depression :: rat
  anxiety :: rat
  stress :: rat
  confidence :: rat

definition zero_component :: component where
  "zero_component = \<lparr>depression = 0, anxiety = 0, stress = 0, confidence = 0\<rparr>"

text \<open>
  The dictionary \<^verbatim>\<open>final_scores\<close>. The three severity keys are optional fields,
  because \<^verbatim>\<open>_generate_recommendations\<close> and \<^verbatim>\<open>_assess_risk_level\<close> read them with
  \<^verbatim>\<open>.get(key, 'normal')\<close>.
\<close>

record final_scores =
  final_depression :: rat
  final_anxiety :: rat
  final_stress :: rat
  depression_severity :: "severity option"
  anxiety_severity :: "severity option"
  stress_severity :: "severity option"

record risk_assessment =
  overall_risk :: risk
  highest_severity :: severity
  requires_attention :: bool

text \<open>
  The raw results are dictionaries, kept as association lists; an empty dictionary is
  falsy, as in \<^verbatim>\<open>if not voice_results\<close>.
\<close>

definition process_voice_results :: "(string \<times> (string \<times> rat) list) list \<Rightarrow> component" where
  "process_voice_results voice_results =
     (if voice_results = [] then zero_component
      else
        let depression_score = dict_get (dict_get voice_results ''depression'' []) ''score'' 0;
            anxiety_score = dict_get (dict_get voice_results ''anxiety'' []) ''score'' 0;
            stress_score = dict_get (dict_get voice_results ''stress'' []) ''score'' 0;
            conf = dict_get (dict_get voice_results ''depression'' []) ''confidence'' (1 / 2)
        in \<lparr>depression = min depression_score 100,
            anxiety = min anxiety_score 100,
            stress = min stress_score 100,
            confidence = conf\<rparr>)"

definition process_sentiment_results :: "(string \<times> rat) list \<Rightarrow> component" where
  "process_sentiment_results sentiment_results =
     (if sentiment_results = [] then zero_component
      else
        let negative_score = dict_get sentiment_results ''negative'' 0;
            positive_score = dict_get sentiment_results ''positive'' 0;
            neutral_score = dict_get sentiment_results ''neutral'' 0;
            depression_score = negative_score * 80;
            anxiety_score = negative_score * 70 + (1 - neutral_score) * 20;
            stress_score = negative_score * 60 + (1 - positive_score) * 30;
            conf = max negative_score (max positive_score neutral_score)
        in \<lparr>depression = min depression_score 100,
            anxiety = min anxiety_score 100,
            stress = min stress_score 100,
            confidence = conf\<rparr>)"

text \<open>
  The keyword counts are Python ints; \<^verbatim>\<open>/\<close> is true division and raises
  ZeroDivisionError when \<^verbatim>\<open>total_words\<close> is 0.
\<close>

definition process_keyword_results :: "(string \<times> int) list \<Rightarrow> py_error + component" where
  "process_keyword_results keyword_results =
     (if keyword_results = [] then Inr zero_component
      else
        let depression_keywords = dict_get keyword_results ''depression_indicators'' 0;
            anxiety_keywords = dict_get keyword_results ''anxiety_indicators'' 0;
            stress_keywords = dict_get keyword_results ''stress_indicators'' 0;
            total_words = dict_get keyword_results ''total_words'' 1
        in if total_words = 0 then Inl ZeroDivisionError
           else
             let depression_score = min ((of_int depression_keywords / of_int total_words) * 500) 100;
                 anxiety_score = min ((of_int anxiety_keywords / of_int total_words) * 500) 100;
                 stress_score = min ((of_int stress_keywords / of_int total_words) * 500) 100;
                 total_keywords = depression_keywords + anxiety_keywords + stress_keywords;
                 conf = min (of_int total_keywords / 10) 1
             in Inr \<lparr>depression = depression_score,
                     anxiety = anxiety_score,
                     stress = stress_score,
                     confidence = conf\<rparr>)"

definition process_facial_results :: "(string \<times> rat) list \<Rightarrow> component" where
  "process_facial_results facial_results =
     (if facial_results = [] then zero_component
      else
        let sadness = dict_get facial_results ''sadness'' 0;
            fear = dict_get facial_results ''fear'' 0;
            anger = dict_get facial_results ''anger'' 0;
            happiness = dict_get facial_results ''happiness'' 0;
            depression_score = sadness * 80 + (1 - happiness) * 20;
            anxiety_score = fear * 70 + sadness * 20;
            stress_score = anger * 60 + fear * 30;
            conf = max sadness (max fear (max anger happiness))
        in \<lparr>depression = min depression_score 100,
            anxiety = min anxiety_score 100,
            stress = min stress_score 100,
            confidence = conf\<rparr>)"

definition score_to_severity :: "rat \<Rightarrow> domain \<Rightarrow> severity" where
  "score_to_severity score category =
     (case first_band (severity_thresholds category) score of
        Some sev \<Rightarrow> sev
      | None \<Rightarrow> Normal)"

text \<open>
  The loop of \<^verbatim>\<open>_calculate_weighted_scores\<close> over \<^verbatim>\<open>self.component_weights.items()\<close>.
  The accumulator holds the three running sums and \<^verbatim>\<open>total_weight\<close>; a component
  that is not a key of \<^verbatim>\<open>component_scores\<close> is skipped.
\<close>

fun weighted_loop ::
  "(source \<rightharpoonup> component) \<Rightarrow> (source \<times> rat) list \<Rightarrow> rat \<times> rat \<times> rat \<times> rat
     \<Rightarrow> rat \<times> rat \<times> rat \<times> rat" where
  "weighted_loop component_scores [] acc = acc"
| "weighted_loop component_scores ((src, weight) # rest) (d, a, s, total_weight) =
     (case component_scores src of
        None \<Rightarrow> weighted_loop component_scores rest (d, a, s, total_weight)
      | Some scores \<Rightarrow>
          let effective_weight = weight * confidence scores
          in weighted_loop component_scores rest
               (d + depression scores * effective_weight,
                a + anxiety scores * effective_weight,
                s + stress scores * effective_weight,
                total_weight + effective_weight))"

definition calculate_weighted_scores :: "(source \<rightharpoonup> component) \<Rightarrow> final_scores" where
  "calculate_weighted_scores component_scores =
     (case weighted_loop component_scores component_weights (0, 0, 0, 0) of
        (d, a, s, total_weight) \<Rightarrow>
          let d' = (if total_weight > 0 then py_round (d / total_weight) 2 else d);
              a' = (if total_weight > 0 then py_round (a / total_weight) 2 else a);
              s' = (if total_weight > 0 then py_round (s / total_weight) 2 else s)
          in \<lparr>final_depression = d',
              final_anxiety = a',
              final_stress = s',
              depression_severity = Some (score_to_severity d' Depression),
              anxiety_severity = Some (score_to_severity a' Anxiety),
              stress_severity = Some (score_to_severity s' Stress)\<rparr>)"

fun severity_key :: "final_scores \<Rightarrow> domain \<Rightarrow> severity option" where
  "severity_key fs Depression = depression_severity fs"
| "severity_key fs Anxiety = anxiety_severity fs"
| "severity_key fs Stress = stress_severity fs"

text \<open>
  The three f-strings of \<^verbatim>\<open>_generate_recommendations\<close>, for a category.
\<close>

definition severe_text :: "domain \<Rightarrow> string" where
  "severe_text category =
     ''Immediate professional consultation recommended for '' @ domain_name category"

definition moderate_text :: "domain \<Rightarrow> string" where
  "moderate_text category =
     ''Consider professional support for '' @ domain_name category @ '' management''"

definition mild_text :: "domain \<Rightarrow> string" where
  "mild_text category =
     ''Monitor '' @ domain_name category @ '' levels and practice self-care techniques''"

text \<open>
  The body of the loop of \<^verbatim>\<open>_generate_recommendations\<close>: what one category appends.
\<close>

definition category_recommendation :: "final_scores \<Rightarrow> domain \<Rightarrow> string list" where
  "category_recommendation fs category =
     (let sev = (case severity_key fs category of None \<Rightarrow> Normal | Some v \<Rightarrow> v)
      in if sev \<in> set [Severe, Extremely_severe] then [severe_text category]
         else if sev = Moderate then [moderate_text category]
         else if sev = Mild then [mild_text category]
         else [])"

definition generate_recommendations_engine :: "final_scores \<Rightarrow> string list" where
  "generate_recommendations_engine fs =
     (let recommendations = concat (map (category_recommendation fs) [Depression, Anxiety, Stress])
      in if recommendations = [] then
           [''Mental health indicators appear normal - continue healthy practices'']
         else recommendations)"

definition severity_levels :: "severity list" where
  "severity_levels = [Normal, Mild, Moderate, Severe, Extremely_severe]"

text \<open>
  \<^verbatim>\<open>list.index\<close>: the position of the first occurrence. Every value of the type
  \<open>severity\<close> occurs in \<open>severity_levels\<close>, so the ValueError of a missing element has
  no input here.
\<close>

fun index_of :: "'a list \<Rightarrow> 'a \<Rightarrow> nat" where
  "index_of [] x = 0"
| "index_of (y # ys) x = (if y = x then 0 else Suc (index_of ys x))"

fun risk_mapping :: "severity \<Rightarrow> risk" where
  "risk_mapping Normal = Low"
| "risk_mapping Mild = Low"
| "risk_mapping Moderate = Medium"
| "risk_mapping Severe = High"
| "risk_mapping Extremely_severe = Critical"

definition assess_risk_level :: "final_scores \<Rightarrow> risk_assessment" where
  "assess_risk_level fs =
     (let severities =
            [case depression_severity fs of None \<Rightarrow> Normal | Some v \<Rightarrow> v,
             case anxiety_severity fs of None \<Rightarrow> Normal | Some v \<Rightarrow> v,
             case stress_severity fs of None \<Rightarrow> Normal | Some v \<Rightarrow> v];
          max_severity_index = foldr max (map (index_of severity_levels) severities) 0;
          overall_severity = severity_levels ! max_severity_index
      in \<lparr>overall_risk = risk_mapping overall_severity,
          highest_severity = overall_severity,
          requires_attention = (overall_severity \<in> set [Moderate, Severe, Extremely_severe])\<rparr>)"

text \<open>
  \<^verbatim>\<open>calculate_comprehensive_scores\<close>: a missing (\<open>None\<close>) or empty raw result leaves
  the zero component in place. The report keeps the keys the properties below read;
  \<^verbatim>\<open>component_weights\<close> (a constant) and \<^verbatim>\<open>confidence_metrics\<close> are left out.
\<close>

record report =
  report_final_scores :: final_scores
  report_component_scores :: "source \<rightharpoonup> component"
  report_recommendations :: "string list"
  report_risk_assessment :: risk_assessment

definition calculate_comprehensive_scores ::
  "(string \<times> (string \<times> rat) list) list option \<Rightarrow> (string \<times> rat) list option
     \<Rightarrow> (string \<times> int) list option \<Rightarrow> (string \<times> rat) list option \<Rightarrow> py_error + report" where
  "calculate_comprehensive_scores voice_results sentiment_results keyword_results facial_results =
     (let voice = (case voice_results of
                     Some v \<Rightarrow> if v \<noteq> [] then process_voice_results v else zero_component
                   | None \<Rightarrow> zero_component);
          sentiment = (case sentiment_results of
                     Some v \<Rightarrow> if v \<noteq> [] then process_sentiment_results v else zero_component
                   | None \<Rightarrow> zero_component);
          keyword = (case keyword_results of
                     Some v \<Rightarrow> if v \<noteq> [] then process_keyword_results v else Inr zero_component
                   | None \<Rightarrow> Inr zero_component);
          facial = (case facial_results of
                     Some v \<Rightarrow> if v \<noteq> [] then process_facial_results v else zero_component
                   | None \<Rightarrow> zero_component)
      in case keyword of
           Inl e \<Rightarrow> Inl e
         | Inr kw \<Rightarrow>
             let component_scores =
                   [Voice_analysis \<mapsto> voice, Sentiment_analysis \<mapsto> sentiment,
                    Keyword_matching \<mapsto> kw, Facial_analysis \<mapsto> facial];
                 fs = calculate_weighted_scores component_scores
             in Inr \<lparr>report_final_scores = fs,
                     report_component_scores = component_scores,
                     report_recommendations = generate_recommendations_engine fs,
                     report_risk_assessment = assess_risk_level fs\<rparr>)"

section \<open>Keyword conversion of the second engine (weighted\_assessment\_engine.py)\<close>

record condition_scores =
  condition_depression :: rat
  condition_anxiety :: rat
  condition_stress :: rat

definition convert_keywords_to_scores :: "(string \<times> int) list \<Rightarrow> py_error + condition_scores" where
  "convert_keywords_to_scores keyword_results =
     (let total_words = dict_get keyword_results ''total_words'' 1
      in if total_words = 0 then Inl ZeroDivisionError
         else
           let depression_density =
                 of_int (dict_get keyword_results ''depression_indicators'' 0) / of_int total_words;
               anxiety_density =
                 of_int (dict_get keyword_results ''anxiety_indicators'' 0) / of_int total_words;
               stress_density =
                 of_int (dict_get keyword_results ''stress_indicators'' 0) / of_int total_words
           in Inr \<lparr>condition_depression = min (depression_density * 200) 100,
                   condition_anxiety = min (anxiety_density * 200) 100,
                   condition_stress = min (stress_density * 200) 100\<rparr>)"

section \<open>Recommendation generator of the assessment service (services/assessment\_service.py)\<close>

text \<open>
  The values of \<^verbatim>\<open>category_scores\<close> are dictionaries read with
  \<^verbatim>\<open>scores.get('percentage', 0)\<close>, and the entries of
  \<^verbatim>\<open>facial_analysis['emotions_detected']\<close> are dictionaries read with
  \<^verbatim>\<open>emotion.get('dominant_emotion', '')\<close>. A value that is not a dictionary makes
  \<^verbatim>\<open>.get\<close> raise AttributeError, which the \<^verbatim>\<open>except\<close> clause of
  \<^verbatim>\<open>generate_recommendations\<close> turns into the fixed fallback list.
\<close>

datatype category_entry =
    Scores "rat option"     \<comment> \<open>a dictionary, with its \<^verbatim>\<open>'percentage'\<close> when the key is there\<close>
  | Scores_not_a_dict

datatype emotion_entry =
    Emotion "string option" \<comment> \<open>a dictionary, with its \<^verbatim>\<open>'dominant_emotion'\<close> when the key is there\<close>
  | Emotion_not_a_dict

definition base_recommendations :: "string \<Rightarrow> string list" where
  "base_recommendations stress_level =
     (if stress_level = ''high'' then
        [''Consider speaking with a mental health professional'',
         ''Practice deep breathing exercises for 10-15 minutes daily'',
         ''Ensure you're getting 7-9 hours of quality sleep'',
         ''Try progressive muscle relaxation techniques'']
      else if stress_level = ''moderate'' then
        [''Practice mindfulness or meditation for 10-15 minutes daily'',
         ''Maintain a regular sleep schedule'',
         ''Take short breaks throughout your day'',
         ''Try stress-reducing activities like yoga or walking'']
      else if stress_level = ''mild'' then
        [''Continue current stress management practices'',
         ''Maintain work-life balance'',
         ''Stay physically active'',
         ''Practice gratitude exercises'']
      else
        [''Maintain your current healthy lifestyle'',
         ''Continue regular exercise and good sleep habits'',
         ''Stay connected with your support network''])"

definition category_advice :: "string \<Rightarrow> string list" where
  "category_advice category =
     (if category = ''academic'' then
        [''Consider time management techniques for academic workload'']
      else if category = ''social'' then
        [''Focus on building supportive social connections'']
      else if category = ''financial'' then
        [''Consider financial planning or counseling resources'']
      else if category = ''health'' then
        [''Prioritize physical and mental health self-care'']
      else if category = ''work'' then
        [''Explore work-life balance strategies'']
      else [])"

fun category_loop ::
  "(string \<times> category_entry) list \<Rightarrow> string list \<Rightarrow> py_error + string list" where
  "category_loop [] recommendations = Inr recommendations"
| "category_loop ((category, Scores_not_a_dict) # rest) recommendations = Inl AttributeError"
| "category_loop ((category, Scores percentage) # rest) recommendations =
     (if (case percentage of None \<Rightarrow> 0 | Some v \<Rightarrow> v) \<ge> 70
      then category_loop rest (recommendations @ category_advice category)
      else category_loop rest recommendations)"

fun dominant_emotions_of :: "emotion_entry list \<Rightarrow> py_error + string list" where
  "dominant_emotions_of [] = Inr []"
| "dominant_emotions_of (Emotion_not_a_dict # rest) = Inl AttributeError"
| "dominant_emotions_of (Emotion e # rest) =
     (case dominant_emotions_of rest of
        Inl err \<Rightarrow> Inl err
      | Inr ds \<Rightarrow> Inr ((case e of None \<Rightarrow> [] | Some v \<Rightarrow> v) # ds))"

definition emotion_advice :: "string list \<Rightarrow> string list" where
  "emotion_advice dominant_emotions =
     (if ''angry'' \<in> set dominant_emotions
        then [''Practice anger management techniques''] else [])
     @ (if ''sad'' \<in> set dominant_emotions
        then [''Consider mood-boosting activities and social support''] else [])
     @ (if ''fear'' \<in> set dominant_emotions
        then [''Try anxiety reduction techniques like grounding exercises''] else [])"

text \<open>
  \<^verbatim>\<open>list(dict.fromkeys(xs))\<close>: the keys in order of first insertion.
\<close>

fun fromkeys :: "'a list \<Rightarrow> 'a list \<Rightarrow> 'a list" where
  "fromkeys seen [] = seen"
| "fromkeys seen (x # xs) =
     (if x \<in> set seen then fromkeys seen xs else fromkeys (seen @ [x]) xs)"

text \<open>
  The \<^verbatim>\<open>try\<close> block. \<open>facial_analysis\<close> is the value of
  \<^verbatim>\<open>facial_analysis.get('emotions_detected')\<close>, \<open>None\<close> when there is no facial
  analysis or no such key; \<open>None\<close> and the empty list are both falsy.
\<close>

definition generate_recommendations_try ::
  "string \<Rightarrow> (string \<times> category_entry) list \<Rightarrow> emotion_entry list option
     \<Rightarrow> py_error + string list" where
  "generate_recommendations_try stress_level category_scores facial_analysis =
     (case category_loop category_scores (base_recommendations stress_level) of
        Inl e \<Rightarrow> Inl e
      | Inr recommendations \<Rightarrow>
          (case (case facial_analysis of
                   None \<Rightarrow> Inr recommendations
                 | Some emotions_detected \<Rightarrow>
                     if emotions_detected = [] then Inr recommendations
                     else (case dominant_emotions_of emotions_detected of
                             Inl e \<Rightarrow> Inl e
                           | Inr dominant_emotions \<Rightarrow>
                               Inr (recommendations @ emotion_advice dominant_emotions))) of
             Inl e \<Rightarrow> Inl e
           | Inr recommendations' \<Rightarrow> Inr (take 8 (fromkeys [] recommendations'))))"

definition generate_recommendations ::
  "string \<Rightarrow> (string \<times> category_entry) list \<Rightarrow> emotion_entry list option \<Rightarrow> string list" where
  "generate_recommendations stress_level category_scores facial_analysis =
     (case generate_recommendations_try stress_level category_scores facial_analysis of
        Inr recommendations \<Rightarrow> recommendations
      | Inl e \<Rightarrow>
          [''Practice deep breathing exercises'',
           ''Maintain regular sleep schedule'',
           ''Stay physically active'',
           ''Consider speaking with a mental health professional if needed''])"

section \<open>The specification's reading of the fusion and of a valid form\<close>

text \<open>
  The specification's fusion formula, written from its words: for a domain, the sum over
  the present modalities of score times weight times confidence, divided by the sum of
  weight times confidence, and 0 when that denominator is 0.
\<close>

fun domain_score :: "component \<Rightarrow> domain \<Rightarrow> rat" where
  "domain_score c Depression = depression c"
| "domain_score c Anxiety = anxiety c"
| "domain_score c Stress = stress c"

definition weighted_sum ::
  "(source \<rightharpoonup> component) \<Rightarrow> (component \<Rightarrow> rat) \<Rightarrow> (source \<times> rat) list \<Rightarrow> rat" where
  "weighted_sum component_scores f weights =
     sum_list (map (\<lambda>(src, weight). case component_scores src of
                       None \<Rightarrow> 0
                     | Some c \<Rightarrow> f c * weight * confidence c) weights)"

definition spec_numerator :: "(source \<rightharpoonup> component) \<Rightarrow> domain \<Rightarrow> rat" where
  "spec_numerator component_scores d =
     weighted_sum component_scores (\<lambda>c. domain_score c d) component_weights"

definition spec_denominator :: "(source \<rightharpoonup> component) \<Rightarrow> rat" where
  "spec_denominator component_scores =
     weighted_sum component_scores (\<lambda>c. 1) component_weights"

definition spec_fused :: "(source \<rightharpoonup> component) \<Rightarrow> domain \<Rightarrow> rat" where
  "spec_fused component_scores d =
     (if spec_denominator component_scores = 0 then 0
      else spec_numerator component_scores d / spec_denominator component_scores)"

fun final_score :: "final_scores \<Rightarrow> domain \<Rightarrow> rat" where
  "final_score fs Depression = final_depression fs"
| "final_score fs Anxiety = final_anxiety fs"
| "final_score fs Stress = final_stress fs"

text \<open>
  Reading a fused score out of the report of \<^verbatim>\<open>calculate_comprehensive_scores\<close>:
  \<^verbatim>\<open>report['final_scores'][domain]\<close>, \<open>None\<close> when the call raised.
\<close>

fun fused_score :: "py_error + report \<Rightarrow> domain \<Rightarrow> rat option" where
  "fused_score (Inl e) d = None"
| "fused_score (Inr r) d = Some (final_score (report_final_scores r) d)"

text \<open>
  A valid DASS-21 form: exactly 20 responses, each one of the ints 0, 1, 2, 3; and the
  form as the list of Python values handed to the scorer.
\<close>

definition valid_responses :: "int list \<Rightarrow> bool" where
  "valid_responses responses \<longleftrightarrow>
     length responses = 20 \<and> list_all (\<lambda>r. r \<in> {0, 1, 2, 3}) responses"

definition int_responses :: "int list \<Rightarrow> pyval list" where
  "int_responses responses = map (\<lambda>r. Num (PyInt r)) responses"



text \<open>
  A valid modality score: the three domain scores within 0 and 100, the confidence
  within 0 and 1.
\<close>

definition valid_component :: "component \<Rightarrow> bool" where
  "valid_component c \<longleftrightarrow>
     0 \<le> depression c \<and> depression c \<le> 100 \<and>
     0 \<le> anxiety c \<and> anxiety c \<le> 100 \<and>
     0 \<le> stress c \<and> stress c \<le> 100 \<and>
     0 \<le> confidence c \<and> confidence c \<le> 1"


text \<open>
  The specification's keyword formulas, written from its words: the domain score
  \<open>min(100, 200 * count / total_words)\<close> and the confidence
  \<open>min(1.0, total matched keywords / 10)\<close>.
\<close>

definition spec_keyword_score :: "int \<Rightarrow> int \<Rightarrow> rat" where
  "spec_keyword_score count total_words = min 100 (200 * of_int count / of_int total_words)"

definition spec_keyword_confidence :: "int \<Rightarrow> rat" where
  "spec_keyword_confidence total_keywords = min 1 (of_int total_keywords / 10)"

text \<open>
  The order of the severity bands, \<open>normal < mild < moderate < severe < extremely_severe\<close>,
  by which one severity is worse than another; and a severity key of \<^verbatim>\<open>final_scores\<close>
  read with its default.
\<close>

fun severity_rank :: "severity \<Rightarrow> nat" where
  "severity_rank Normal = 0"
| "severity_rank Mild = 1"
| "severity_rank Moderate = 2"
| "severity_rank Severe = 3"
| "severity_rank Extremely_severe = 4"

fun key_or_normal :: "severity option \<Rightarrow> severity" where
  "key_or_normal None = Normal"
| "key_or_normal (Some v) = v"

fun fused_severity :: "py_error + report \<Rightarrow> domain \<Rightarrow> severity option" where
  "fused_severity (Inl e) d = None"
| "fused_severity (Inr r) d = severity_key (report_final_scores r) d"

text \<open>
  Two concrete inputs used below: a voice and a sentiment modality score, both with
  confidence 1, and a \<^verbatim>\<open>final_scores\<close> dictionary with severities mild, severe and
  normal.
\<close>

definition voice_and_sentiment :: "source \<rightharpoonup> component" where
  "voice_and_sentiment =
     [Voice_analysis \<mapsto> \<lparr>depression = 10, anxiety = 0, stress = 0, confidence = 1\<rparr>,
      Sentiment_analysis \<mapsto> \<lparr>depression = 20, anxiety = 0, stress = 0, confidence = 1\<rparr>]"

definition mild_severe_normal :: final_scores where
  "mild_severe_normal =
     \<lparr>final_depression = 12, final_anxiety = 16, final_stress = 3,
      depression_severity = Some Mild, anxiety_severity = Some Severe,
      stress_severity = Some Normal\<rparr>"

section \<open>Properties of the DASS-21 direct scorer\<close>




text \<open>
  On a list of ints the loop stays within the ints: it adds the weighted responses of the
  subscale's questions and counts them.
\<close>

lemma subscale_loop_int:
  assumes "\<forall>q\<in>set qm. fst q < length rs"
  shows "subscale_loop (int_responses rs) sub qm (PyInt sc, ct) =
           Inr (PyInt (sc + sum_list (map (\<lambda>q. rs ! fst q * snd (snd q))
                                       (filter (\<lambda>q. fst (snd q) = sub) qm))),
                ct + length (filter (\<lambda>q. fst (snd q) = sub) qm))"
  using assms
  by (induction qm arbitrary: sc ct) (auto simp: int_responses_def)

lemma QUESTION_MAPPING_idx:
  "length rs = 20 \<Longrightarrow> \<forall>q\<in>set QUESTION_MAPPING. fst q < length rs"
  by (simp add: QUESTION_MAPPING_def)

lemma calc_Depression:
  "length rs = 20 \<Longrightarrow> calculate_subscale_score (int_responses rs) Depression =
     Inr (PyInt (2 * (rs ! 0 + rs ! 3 + rs ! 6 + rs ! 9 + rs ! 12 + rs ! 15 + rs ! 18)))"
  unfolding calculate_subscale_score_def
  by (simp add: subscale_loop_int[OF QUESTION_MAPPING_idx]) (simp add: QUESTION_MAPPING_def)

lemma calc_Anxiety:
  "length rs = 20 \<Longrightarrow> calculate_subscale_score (int_responses rs) Anxiety =
     Inr (PyInt (2 * (rs ! 1 + rs ! 4 + rs ! 7 + rs ! 10 + rs ! 13 + rs ! 16 + rs ! 19)))"
  unfolding calculate_subscale_score_def
  by (simp add: subscale_loop_int[OF QUESTION_MAPPING_idx]) (simp add: QUESTION_MAPPING_def)

lemma calc_Stress:
  "length rs = 20 \<Longrightarrow> calculate_subscale_score (int_responses rs) Stress =
     Inr (PyInt (2 * (rs ! 2 + rs ! 5 + rs ! 8 + rs ! 11 + rs ! 14 + rs ! 17)))"
  unfolding calculate_subscale_score_def
  by (simp add: subscale_loop_int[OF QUESTION_MAPPING_idx]) (simp add: QUESTION_MAPPING_def)

lemma valid_length: "valid_responses rs \<Longrightarrow> length rs = 20"
  by (simp add: valid_responses_def)

lemma valid_nth:
  "valid_responses rs \<Longrightarrow> i < 20 \<Longrightarrow> 0 \<le> rs ! i \<and> rs ! i \<le> 3"
proof -
  assume v: "valid_responses rs" and i: "i < 20"
  then have "rs ! i \<in> set rs" by (simp add: valid_responses_def)
  with v have "rs ! i \<in> {0, 1, 2, 3}" by (simp add: valid_responses_def list_all_iff)
  then show ?thesis by auto
qed


lemma subscale_bounds:
  assumes v: "valid_responses rs"
  shows "\<exists>d a s. calculate_subscale_score (int_responses rs) Depression = Inr (PyInt d) \<and>
                 0 \<le> d \<and> d \<le> 42 \<and>
                 calculate_subscale_score (int_responses rs) Anxiety = Inr (PyInt a) \<and>
                 0 \<le> a \<and> a \<le> 42 \<and>
                 calculate_subscale_score (int_responses rs) Stress = Inr (PyInt s) \<and>
                 0 \<le> s \<and> s \<le> 36"
proof -
  note n = valid_nth[OF v]
  have "0 \<le> rs ! 0 \<and> rs ! 0 \<le> 3" "0 \<le> rs ! 1 \<and> rs ! 1 \<le> 3" "0 \<le> rs ! 2 \<and> rs ! 2 \<le> 3"
       "0 \<le> rs ! 3 \<and> rs ! 3 \<le> 3" "0 \<le> rs ! 4 \<and> rs ! 4 \<le> 3" "0 \<le> rs ! 5 \<and> rs ! 5 \<le> 3"
       "0 \<le> rs ! 6 \<and> rs ! 6 \<le> 3" "0 \<le> rs ! 7 \<and> rs ! 7 \<le> 3" "0 \<le> rs ! 8 \<and> rs ! 8 \<le> 3"
       "0 \<le> rs ! 9 \<and> rs ! 9 \<le> 3" "0 \<le> rs ! 10 \<and> rs ! 10 \<le> 3" "0 \<le> rs ! 11 \<and> rs ! 11 \<le> 3"
       "0 \<le> rs ! 12 \<and> rs ! 12 \<le> 3" "0 \<le> rs ! 13 \<and> rs ! 13 \<le> 3" "0 \<le> rs ! 14 \<and> rs ! 14 \<le> 3"
       "0 \<le> rs ! 15 \<and> rs ! 15 \<le> 3" "0 \<le> rs ! 16 \<and> rs ! 16 \<le> 3" "0 \<le> rs ! 17 \<and> rs ! 17 \<le> 3"
       "0 \<le> rs ! 18 \<and> rs ! 18 \<le> 3" "0 \<le> rs ! 19 \<and> rs ! 19 \<le> 3"
    by (simp_all add: n)
  then show ?thesis
    by (simp add: calc_Depression calc_Anxiety calc_Stress valid_length[OF v])
qed









lemma replicate_20:
  "replicate 20 x = [x, x, x, x, x, x, x, x, x, x, x, x, x, x, x, x, x, x, x, x]"
  by (simp add: numeral_eq_Suc)




text \<open>
  C8, as the code has it. Twenty zeros give score 0, severity normal and percentage 0.0
  for depression, anxiety and stress; the overall entry holds score 0.0, severity normal
  and percentage 0.0, next to the interpretation and the two maintenance
  recommendations. The result has no risk level: the scorer computes none.
\<close>

theorem score_assessment_all_zeros:
  "score_assessment (int_responses (replicate 20 0)) =
     Inr [(''depression'', JDict [(''score'', JInt 0), (''severity'', JStr ''normal''),
                                  (''percentage'', JFloat 0)]),
          (''anxiety'', JDict [(''score'', JInt 0), (''severity'', JStr ''normal''),
                               (''percentage'', JFloat 0)]),
          (''stress'', JDict [(''score'', JInt 0), (''severity'', JStr ''normal''),
                              (''percentage'', JFloat 0)]),
          (''overall'', JDict [(''score'', JFloat 0), (''severity'', JStr ''normal''),
                               (''percentage'', JFloat 0)]),
          (''interpretation'',
             JStr ''Your mental health appears to be within normal range. Continue maintaining healthy habits.''),
          (''recommendations'',
             JList [JStr ''Maintain your current healthy lifestyle and coping strategies'',
                    JStr ''Continue regular self-care and stress management practices''])]"
  unfolding replicate_20 int_responses_def
  by (simp add: score_assessment_def total_questions_def calculate_subscale_score_def
      QUESTION_MAPPING_def get_severity_def get_overall_severity_def subscale_entry_def
      py_round_def round_half_even_def get_interpretation_def get_recommendations_def)

text \<open>
  C8, as the specification words it, fails on its last part: reading
  \<^verbatim>\<open>result['overall']['risk_level']\<close> of the all-zeros result finds no such key, so the
  overall entry does not report a risk level of low.
\<close>

theorem score_assessment_all_zeros_no_risk_level:
  "result_field (score_assessment (int_responses (replicate 20 0)))
      ''overall'' ''risk_level'' = None \<and>
   result_field (score_assessment (int_responses (replicate 20 0)))
      ''overall'' ''risk_level'' \<noteq> Some (JStr ''low'')"
  unfolding replicate_20 int_responses_def
  by (simp add: score_assessment_def total_questions_def calculate_subscale_score_def
      QUESTION_MAPPING_def get_severity_def get_overall_severity_def subscale_entry_def
      py_round_def round_half_even_def get_interpretation_def get_recommendations_def)

text \<open>
  C10. Of the 20 questions of \<^verbatim>\<open>QUESTION_MAPPING\<close>, 7 belong to depression, 7 to
  anxiety and 6 to stress. With the multiplier 2, every valid form scores at most 42 on
  depression, at most 42 on anxiety and at most 36 on stress, and the all-threes form
  reaches these maxima: it scores (42, 42, 36).
\<close>

theorem question_mapping_maxima:
  "length (filter (\<lambda>q. fst (snd q) = Depression) QUESTION_MAPPING) = 7 \<and>
   length (filter (\<lambda>q. fst (snd q) = Anxiety) QUESTION_MAPPING) = 7 \<and>
   length (filter (\<lambda>q. fst (snd q) = Stress) QUESTION_MAPPING) = 6 \<and>
   (valid_responses responses \<longrightarrow>
      (\<exists>d a s.
         calculate_subscale_score (int_responses responses) Depression = Inr (PyInt d) \<and>
         d \<le> 42 \<and>
         calculate_subscale_score (int_responses responses) Anxiety = Inr (PyInt a) \<and>
         a \<le> 42 \<and>
         calculate_subscale_score (int_responses responses) Stress = Inr (PyInt s) \<and>
         s \<le> 36)) \<and>
   valid_responses (replicate 20 3) \<and>
   calculate_subscale_score (int_responses (replicate 20 3)) Depression = Inr (PyInt 42) \<and>
   calculate_subscale_score (int_responses (replicate 20 3)) Anxiety = Inr (PyInt 42) \<and>
   calculate_subscale_score (int_responses (replicate 20 3)) Stress = Inr (PyInt 36)"
proof -
  have counts:
    "length (filter (\<lambda>q. fst (snd q) = Depression) QUESTION_MAPPING) = 7"
    "length (filter (\<lambda>q. fst (snd q) = Anxiety) QUESTION_MAPPING) = 7"
    "length (filter (\<lambda>q. fst (snd q) = Stress) QUESTION_MAPPING) = 6"
    by (simp_all add: QUESTION_MAPPING_def)
  have threes: "valid_responses (replicate 20 3)"
    by (simp add: valid_responses_def list_all_iff)
  have "calculate_subscale_score (int_responses (replicate 20 3)) Depression = Inr (PyInt 42)"
       "calculate_subscale_score (int_responses (replicate 20 3)) Anxiety = Inr (PyInt 42)"
       "calculate_subscale_score (int_responses (replicate 20 3)) Stress = Inr (PyInt 36)"
    by (simp_all add: calc_Depression calc_Anxiety calc_Stress)
  with counts threes subscale_bounds[of responses] show ?thesis by blast
qed

theorem question_mapping_maxima_witness:
  "valid_responses [3, 0, 1, 3, 2, 2, 3, 0, 3, 3, 1, 0, 3, 2, 1, 3, 0, 2, 3, 1] \<and>
   calculate_subscale_score
     (int_responses [3, 0, 1, 3, 2, 2, 3, 0, 3, 3, 1, 0, 3, 2, 1, 3, 0, 2, 3, 1])
     Depression = Inr (PyInt 42) \<and>
   calculate_subscale_score
     (int_responses [3, 0, 1, 3, 2, 2, 3, 0, 3, 3, 1, 0, 3, 2, 1, 3, 0, 2, 3, 1])
     Stress = Inr (PyInt 18)"
  using question_mapping_maxima[of "[3, 0, 1, 3, 2, 2, 3, 0, 3, 3, 1, 0, 3, 2, 1, 3, 0, 2, 3, 1]"]
  by (simp add: valid_responses_def calc_Depression calc_Stress)


section \<open>Rounding\<close>

lemma floor_divide_numeral:
  "\<lfloor>numeral a / numeral b :: rat\<rfloor> = numeral a div numeral b"
  using floor_divide_of_int_eq[of "numeral a" "numeral b", where ?'a = rat] by simp

lemma round_half_even_ge: "of_int m \<le> y \<Longrightarrow> m \<le> round_half_even y"
proof -
  assume "of_int m \<le> y"
  then have "m \<le> \<lfloor>y\<rfloor>" by (simp add: le_floor_iff)
  then show ?thesis by (simp add: round_half_even_def Let_def)
qed

lemma round_half_even_le: "y \<le> of_int n \<Longrightarrow> round_half_even y \<le> n"
proof -
  assume y: "y \<le> of_int n"
  then have f: "\<lfloor>y\<rfloor> \<le> n" by (simp add: floor_le_iff)
  show ?thesis
  proof (cases "y = of_int \<lfloor>y\<rfloor>")
    case True
    then have "y - of_int \<lfloor>y\<rfloor> = 0" by simp
    then show ?thesis using f by (simp add: round_half_even_def Let_def)
  next
    case False
    moreover have "of_int \<lfloor>y\<rfloor> \<le> y" by (rule of_int_floor_le)
    ultimately have "of_int \<lfloor>y\<rfloor> < y" by (metis order_less_le)
    with y have "of_int \<lfloor>y\<rfloor> < (of_int n :: rat)" by simp
    then have "\<lfloor>y\<rfloor> < n" by simp
    then show ?thesis by (simp add: round_half_even_def Let_def)
  qed
qed

text \<open>
  Rounding to two decimals never crosses a value that has two decimals itself.
\<close>

lemma py_round2_ge: "of_int m / 100 \<le> x \<Longrightarrow> of_int m / 100 \<le> py_round x 2"
proof -
  assume "of_int m / 100 \<le> x"
  then have "of_int m \<le> x * 10 ^ 2" by (simp add: field_simps)
  then have "m \<le> round_half_even (x * 10 ^ 2)" by (rule round_half_even_ge)
  then have "(of_int m :: rat) \<le> of_int (round_half_even (x * 10 ^ 2))" by simp
  then show ?thesis by (simp add: py_round_def divide_right_mono)
qed

lemma py_round2_le: "x \<le> of_int n / 100 \<Longrightarrow> py_round x 2 \<le> of_int n / 100"
proof -
  assume "x \<le> of_int n / 100"
  then have "x * 10 ^ 2 \<le> of_int n" by (simp add: field_simps)
  then have "round_half_even (x * 10 ^ 2) \<le> n" by (rule round_half_even_le)
  then have "(of_int (round_half_even (x * 10 ^ 2)) :: rat) \<le> of_int n" by simp
  then show ?thesis by (simp add: py_round_def divide_right_mono)
qed

lemma py_round2_of_int: "py_round (of_int k / 100) 2 = of_int k / 100"
  by (simp add: py_round_def round_half_even_def)

lemma py_round_0: "py_round 0 n = 0"
  by (simp add: py_round_def round_half_even_def)


section \<open>Properties of the fusion\<close>

text \<open>
  The loop adds, to each accumulator, the weighted sum over the components it finds.
\<close>

lemma weighted_loop_sums:
  "weighted_loop cs ws (d, a, s, tw) =
     (d + weighted_sum cs depression ws, a + weighted_sum cs anxiety ws,
      s + weighted_sum cs stress ws, tw + weighted_sum cs (\<lambda>c. 1) ws)"
  by (induction ws arbitrary: d a s tw)
     (auto simp: weighted_sum_def Let_def algebra_simps split: option.splits)

lemma calculate_weighted_scores_final:
  "final_score (calculate_weighted_scores cs) d =
     (if spec_denominator cs > 0 then py_round (spec_numerator cs d / spec_denominator cs) 2
      else spec_numerator cs d)"
  by (cases d)
     (simp_all add: calculate_weighted_scores_def weighted_loop_sums spec_numerator_def
        spec_denominator_def Let_def domain_score.simps[abs_def])

lemma weighted_sum_bounds:
  assumes w: "\<forall>x\<in>set ws. 0 \<le> snd x"
      and c: "\<And>src c. cs src = Some c \<Longrightarrow> 0 \<le> confidence c \<and> lo \<le> f c \<and> f c \<le> hi"
  shows "lo * weighted_sum cs (\<lambda>c. 1) ws \<le> weighted_sum cs f ws \<and>
         weighted_sum cs f ws \<le> hi * weighted_sum cs (\<lambda>c. 1) ws \<and>
         0 \<le> weighted_sum cs (\<lambda>c. 1) ws"
  using w
proof (induction ws)
  case Nil
  then show ?case by (simp add: weighted_sum_def)
next
  case (Cons x ws)
  obtain src wt where x: "x = (src, wt)" by (cases x)
  from Cons.prems x have wt: "0 \<le> wt" by simp
  from Cons have IH: "lo * weighted_sum cs (\<lambda>c. 1) ws \<le> weighted_sum cs f ws"
     "weighted_sum cs f ws \<le> hi * weighted_sum cs (\<lambda>c. 1) ws"
     "0 \<le> weighted_sum cs (\<lambda>c. 1) ws" by simp_all
  have step: "weighted_sum cs g (x # ws) =
      (case cs src of None \<Rightarrow> 0 | Some c \<Rightarrow> g c * wt * confidence c) + weighted_sum cs g ws"
    for g
    by (simp add: weighted_sum_def x)
  show ?case
  proof (cases "cs src")
    case None
    then show ?thesis using IH by (simp add: step)
  next
    case (Some c)
    from c[OF Some] have cf: "0 \<le> confidence c" and lo: "lo \<le> f c" and hi: "f c \<le> hi"
      by simp_all
    from wt cf have e: "0 \<le> wt * confidence c" by simp
    have "lo * (wt * confidence c) \<le> f c * (wt * confidence c)"
      using lo e by (rule mult_right_mono)
    moreover have "f c * (wt * confidence c) \<le> hi * (wt * confidence c)"
      using hi e by (rule mult_right_mono)
    ultimately show ?thesis using IH e by (simp add: step Some algebra_simps)
  qed
qed

lemma component_weights_nonneg: "\<forall>x\<in>set component_weights. 0 \<le> snd x"
  by (simp add: component_weights_def)

text \<open>
  With confidences that are not negative, a total weight of 0 means that every present
  component has effective weight 0, so each weighted sum is 0 as well.
\<close>

lemma weighted_sum_zero:
  assumes w: "\<forall>x\<in>set ws. 0 \<le> snd x"
      and c: "\<And>src c. cs src = Some c \<Longrightarrow> 0 \<le> confidence c"
      and z: "weighted_sum cs (\<lambda>c. 1) ws = 0"
  shows "weighted_sum cs f ws = 0"
  using w z
proof (induction ws)
  case Nil
  then show ?case by (simp add: weighted_sum_def)
next
  case (Cons x ws)
  obtain src wt where x: "x = (src, wt)" by (cases x)
  from Cons.prems x have wt: "0 \<le> wt" and ws: "\<forall>x\<in>set ws. 0 \<le> snd x" by simp_all
  have step: "weighted_sum cs g (x # ws) =
      (case cs src of None \<Rightarrow> 0 | Some c \<Rightarrow> g c * wt * confidence c) + weighted_sum cs g ws"
    for g
    by (simp add: weighted_sum_def x)
  have rest: "0 \<le> weighted_sum cs (\<lambda>c. 1) ws"
    using weighted_sum_bounds[OF ws, of cs 1 "\<lambda>c. 1" 1] c by simp
  show ?case
  proof (cases "cs src")
    case None
    with Cons.prems(2) have "weighted_sum cs (\<lambda>c. 1) ws = 0" by (simp add: step)
    with Cons.IH[OF ws] None show ?thesis by (simp add: step)
  next
    case (Some c')
    from c[OF Some] wt have e: "0 \<le> wt * confidence c'" by simp
    from Cons.prems(2) Some have "wt * confidence c' + weighted_sum cs (\<lambda>c. 1) ws = 0"
      by (simp add: step)
    with e rest have e0: "wt * confidence c' = 0" and r0: "weighted_sum cs (\<lambda>c. 1) ws = 0"
      by linarith+
    from e0 have "f c' * wt * confidence c' = 0" by (simp add: mult.assoc)
    with Cons.IH[OF ws r0] Some show ?thesis by (simp add: step)
  qed
qed

lemma spec_denominator_nonneg:
  assumes c: "\<And>src c. cs src = Some c \<Longrightarrow> 0 \<le> confidence c"
  shows "0 \<le> spec_denominator cs"
  using weighted_sum_bounds[OF component_weights_nonneg, of cs 1 "\<lambda>c. 1" 1] c
  by (simp add: spec_denominator_def)

lemma fused_eq_round_spec:
  assumes c: "\<And>src c. cs src = Some c \<Longrightarrow> 0 \<le> confidence c"
  shows "final_score (calculate_weighted_scores cs) d = py_round (spec_fused cs d) 2"
proof (cases "spec_denominator cs = 0")
  case False
  with spec_denominator_nonneg[of cs] c have "0 < spec_denominator cs" by simp
  then show ?thesis by (simp add: calculate_weighted_scores_final spec_fused_def)
next
  case True
  then have "spec_numerator cs d = 0"
    unfolding spec_numerator_def spec_denominator_def
    using weighted_sum_zero[OF component_weights_nonneg] c by blast
  with True show ?thesis
    by (simp add: calculate_weighted_scores_final spec_fused_def py_round_0)
qed


lemma voice_and_sentiment_fused:
  "final_score (calculate_weighted_scores voice_and_sentiment) Depression = 1385 / 100"
  by (simp add: calculate_weighted_scores_def component_weights_def voice_and_sentiment_def
       Let_def py_round_def round_half_even_def floor_divide_numeral)

lemma voice_and_sentiment_spec:
  "spec_fused voice_and_sentiment Depression = 180 / 13"
  by (simp add: spec_fused_def spec_numerator_def spec_denominator_def weighted_sum_def
       component_weights_def voice_and_sentiment_def)

text \<open>
  C1, as the code has it. For modality scores whose confidences are not negative, each
  fused domain score is the specification's quotient (the sum of score times weight times
  confidence over the sum of weight times confidence, and 0 when that denominator is 0)
  rounded to two decimals, as \<^verbatim>\<open>round(.., 2)\<close> does.
\<close>

theorem fused_is_rounded_spec:
  assumes "\<forall>src c. component_scores src = Some c \<longrightarrow> 0 \<le> confidence c"
  shows "final_score (calculate_weighted_scores component_scores) d =
           py_round (spec_fused component_scores d) 2"
  using assms fused_eq_round_spec[of component_scores d] by blast

theorem fused_is_rounded_spec_witness:
  "final_score (calculate_weighted_scores voice_and_sentiment) Depression =
     py_round (spec_fused voice_and_sentiment Depression) 2 \<and>
   py_round (spec_fused voice_and_sentiment Depression) 2 = 1385 / 100"
proof -
  have "\<forall>src c. voice_and_sentiment src = Some c \<longrightarrow> 0 \<le> confidence c"
    by (auto simp: voice_and_sentiment_def split: if_splits)
  from fused_is_rounded_spec[OF this, of Depression] voice_and_sentiment_fused
  show ?thesis by simp
qed

text \<open>
  C1, as the specification words it, fails: with a voice score of 10 and a sentiment
  score of 20 for depression, both at confidence 1, the quotient is 180/13 (13.846...),
  and the code returns 13.85.
\<close>

theorem fused_not_exact_quotient:
  "final_score (calculate_weighted_scores voice_and_sentiment) Depression = 1385 / 100 \<and>
   spec_fused voice_and_sentiment Depression = 180 / 13 \<and>
   final_score (calculate_weighted_scores voice_and_sentiment) Depression
     \<noteq> spec_fused voice_and_sentiment Depression"
  using voice_and_sentiment_fused voice_and_sentiment_spec by simp




section \<open>Properties of the normalizers\<close>

text \<open>
  Each normalizer turns a raw result with values in range (probabilities and emotion
  intensities within 0 and 1, keyword counts that are not negative with a positive word
  count, voice scores that are not negative with a confidence within 0 and 1) into a
  valid modality score.
\<close>

lemma process_sentiment_results_valid:
  assumes "0 \<le> dict_get sr ''negative'' 0" "dict_get sr ''negative'' 0 \<le> 1"
      and "0 \<le> dict_get sr ''positive'' 0" "dict_get sr ''positive'' 0 \<le> 1"
      and "0 \<le> dict_get sr ''neutral'' 0" "dict_get sr ''neutral'' 0 \<le> 1"
  shows "valid_component (process_sentiment_results sr)"
  using assms
  by (simp add: valid_component_def process_sentiment_results_def zero_component_def Let_def
        le_max_iff_disj)

lemma process_facial_results_valid:
  assumes "0 \<le> dict_get fr ''sadness'' 0" "dict_get fr ''sadness'' 0 \<le> 1"
      and "0 \<le> dict_get fr ''fear'' 0" "dict_get fr ''fear'' 0 \<le> 1"
      and "0 \<le> dict_get fr ''anger'' 0" "dict_get fr ''anger'' 0 \<le> 1"
      and "0 \<le> dict_get fr ''happiness'' 0" "dict_get fr ''happiness'' 0 \<le> 1"
  shows "valid_component (process_facial_results fr)"
  using assms
  by (simp add: valid_component_def process_facial_results_def zero_component_def Let_def
        le_max_iff_disj)

lemma process_keyword_results_valid:
  assumes "0 \<le> dict_get kr ''depression_indicators'' 0"
      and "0 \<le> dict_get kr ''anxiety_indicators'' 0"
      and "0 \<le> dict_get kr ''stress_indicators'' 0"
      and "0 < dict_get kr ''total_words'' 1"
  shows "\<exists>c. process_keyword_results kr = Inr c \<and> valid_component c"
  using assms
  by (simp add: valid_component_def process_keyword_results_def zero_component_def Let_def)

lemma process_voice_results_valid:
  assumes "0 \<le> dict_get (dict_get vr ''depression'' []) ''score'' 0"
      and "0 \<le> dict_get (dict_get vr ''anxiety'' []) ''score'' 0"
      and "0 \<le> dict_get (dict_get vr ''stress'' []) ''score'' 0"
      and "0 \<le> dict_get (dict_get vr ''depression'' []) ''confidence'' (1 / 2)"
      and "dict_get (dict_get vr ''depression'' []) ''confidence'' (1 / 2) \<le> 1"
  shows "valid_component (process_voice_results vr)"
  using assms
  by (simp add: valid_component_def process_voice_results_def zero_component_def Let_def)

lemma sentiment_only_fused:
  assumes ne: "sr \<noteq> []" and c: "0 < confidence (process_sentiment_results sr)"
  shows "fused_score (calculate_comprehensive_scores None (Some sr) None None) d =
           Some (py_round (domain_score (process_sentiment_results sr) d) 2)"
  using ne c
  by (cases d)
     (simp_all add: calculate_comprehensive_scores_def calculate_weighted_scores_def
        component_weights_def zero_component_def Let_def)

text \<open>
  C9, as the code has it. With only a sentiment result whose negative probability is
  0.9, the rest split in any way between neutral and positive, the fused depression score
  is 72, the fused anxiety score lies within 81 and 83 and the fused stress score within
  81 and 84: all three are nonzero, and depression is strictly the lowest of the three.
\<close>

theorem sentiment_negative_09:
  assumes neg: "map_of sentiment_results ''negative'' = Some (9 / 10)"
      and neu: "map_of sentiment_results ''neutral'' = Some neutral"
      and pos: "map_of sentiment_results ''positive'' = Some positive"
      and n0: "0 \<le> neutral" and p0: "0 \<le> positive" and sum: "neutral + positive = 1 / 10"
  shows "\<exists>d a s.
           fused_score (calculate_comprehensive_scores None (Some sentiment_results) None None)
             Depression = Some d \<and>
           fused_score (calculate_comprehensive_scores None (Some sentiment_results) None None)
             Anxiety = Some a \<and>
           fused_score (calculate_comprehensive_scores None (Some sentiment_results) None None)
             Stress = Some s \<and>
           d = 72 \<and> 81 \<le> a \<and> a \<le> 83 \<and> 81 \<le> s \<and> s \<le> 84 \<and>
           d \<noteq> 0 \<and> a \<noteq> 0 \<and> s \<noteq> 0 \<and> d < a \<and> d < s"
proof -
  have ne: "sentiment_results \<noteq> []" using neg by auto
  have g: "dict_get sentiment_results ''negative'' 0 = 9 / 10"
          "dict_get sentiment_results ''neutral'' 0 = neutral"
          "dict_get sentiment_results ''positive'' 0 = positive"
    using neg neu pos by (simp_all add: dict_get_def)
  from n0 p0 sum have le: "neutral \<le> 1 / 10" "positive \<le> 1 / 10" by linarith+
  have p: "process_sentiment_results sentiment_results =
             \<lparr>depression = 72, anxiety = 83 - 20 * neutral, stress = 84 - 30 * positive,
              confidence = 9 / 10\<rparr>"
    using ne n0 p0 le by (simp add: process_sentiment_results_def g Let_def algebra_simps)
  have a1: "of_int 8100 / 100 \<le> 83 - 20 * neutral" using le by simp
  have a2: "83 - 20 * neutral \<le> of_int 8300 / 100" using n0 by simp
  have s1: "of_int 8100 / 100 \<le> 84 - 30 * positive" using le by simp
  have s2: "84 - 30 * positive \<le> of_int 8400 / 100" using p0 by simp
  have d: "py_round 72 2 = 72" using py_round2_of_int[of 7200] by simp
  let ?a = "py_round (83 - 20 * neutral) 2" and ?s = "py_round (84 - 30 * positive) 2"
  have ab: "81 \<le> ?a \<and> ?a \<le> 83" using py_round2_ge[OF a1] py_round2_le[OF a2] by simp
  have sb: "81 \<le> ?s \<and> ?s \<le> 84" using py_round2_ge[OF s1] py_round2_le[OF s2] by simp
  have "fused_score (calculate_comprehensive_scores None (Some sentiment_results) None None)
             Depression = Some 72"
       "fused_score (calculate_comprehensive_scores None (Some sentiment_results) None None)
             Anxiety = Some ?a"
       "fused_score (calculate_comprehensive_scores None (Some sentiment_results) None None)
             Stress = Some ?s"
    by (simp_all add: sentiment_only_fused[OF ne] p d)
  with ab sb show ?thesis by auto
qed

theorem sentiment_negative_09_witness:
  "fused_score (calculate_comprehensive_scores None
      (Some [(''negative'', 9 / 10), (''neutral'', 0), (''positive'', 1 / 10)]) None None)
      Depression = Some 72 \<and>
   fused_score (calculate_comprehensive_scores None
      (Some [(''negative'', 9 / 10), (''neutral'', 0), (''positive'', 1 / 10)]) None None)
      Depression \<noteq> Some 0"
proof -
  have "\<exists>d a s.
     fused_score (calculate_comprehensive_scores None
        (Some [(''negative'', 9 / 10), (''neutral'', 0), (''positive'', 1 / 10)]) None None)
        Depression = Some d \<and>
     fused_score (calculate_comprehensive_scores None
        (Some [(''negative'', 9 / 10), (''neutral'', 0), (''positive'', 1 / 10)]) None None)
        Anxiety = Some a \<and>
     fused_score (calculate_comprehensive_scores None
        (Some [(''negative'', 9 / 10), (''neutral'', 0), (''positive'', 1 / 10)]) None None)
        Stress = Some s \<and>
     d = 72 \<and> 81 \<le> a \<and> a \<le> 83 \<and> 81 \<le> s \<and> s \<le> 84 \<and>
     d \<noteq> 0 \<and> a \<noteq> 0 \<and> s \<noteq> 0 \<and> d < a \<and> d < s"
    by (rule sentiment_negative_09[where neutral = 0 and positive = "1 / 10"]) simp_all
  then show ?thesis by auto
qed

text \<open>
  C9, as the specification words it, fails: with negative 0.9, neutral 0.1 and positive 0
  the fused scores are depression 72, anxiety 81 and stress 84, so depression is below
  anxiety and anxiety below stress.
\<close>

theorem sentiment_negative_09_order:
  "fused_score (calculate_comprehensive_scores None
      (Some [(''negative'', 9 / 10), (''neutral'', 1 / 10), (''positive'', 0)]) None None)
      Depression = Some 72 \<and>
   fused_score (calculate_comprehensive_scores None
      (Some [(''negative'', 9 / 10), (''neutral'', 1 / 10), (''positive'', 0)]) None None)
      Anxiety = Some 81 \<and>
   fused_score (calculate_comprehensive_scores None
      (Some [(''negative'', 9 / 10), (''neutral'', 1 / 10), (''positive'', 0)]) None None)
      Stress = Some 84"
  using py_round2_of_int[of 7200] py_round2_of_int[of 8100] py_round2_of_int[of 8400]
  by (simp add: sentiment_only_fused process_sentiment_results_def dict_get_def Let_def)

text \<open>
  The order of anxiety and stress is not fixed: with the remaining 0.1 on positive,
  anxiety (83) is above stress (81).
\<close>

lemma sentiment_negative_09_other_split:
  "fused_score (calculate_comprehensive_scores None
      (Some [(''negative'', 9 / 10), (''neutral'', 0), (''positive'', 1 / 10)]) None None)
      Anxiety = Some 83 \<and>
   fused_score (calculate_comprehensive_scores None
      (Some [(''negative'', 9 / 10), (''neutral'', 0), (''positive'', 1 / 10)]) None None)
      Stress = Some 81"
  using py_round2_of_int[of 8300] py_round2_of_int[of 8100]
  by (simp add: sentiment_only_fused process_sentiment_results_def dict_get_def Let_def)

text \<open>
  C7, as the code has it. For a keyword result with counts \<open>d\<close>, \<open>a\<close>, \<open>s\<close> and a
  positive total word count, \<^verbatim>\<open>_convert_keywords_to_scores\<close> of the second engine gives
  each domain the score \<open>min(100, 200 * count / total_words)\<close> and no confidence, while
  \<^verbatim>\<open>_process_keyword_results\<close> of the weighted AI engine gives each domain
  \<open>min(100, 500 * count / total_words)\<close> with the confidence
  \<open>min(1, (d + a + s) / 10)\<close>, which is 1 from 10 matches on.
\<close>

theorem keyword_scores:
  assumes "map_of keyword_results ''depression_indicators'' = Some d"
      and "map_of keyword_results ''anxiety_indicators'' = Some a"
      and "map_of keyword_results ''stress_indicators'' = Some s"
      and "map_of keyword_results ''total_words'' = Some total_words"
      and "0 < total_words"
  shows "convert_keywords_to_scores keyword_results =
           Inr \<lparr>condition_depression = spec_keyword_score d total_words,
                condition_anxiety = spec_keyword_score a total_words,
                condition_stress = spec_keyword_score s total_words\<rparr> \<and>
         process_keyword_results keyword_results =
           Inr \<lparr>depression = min 100 (500 * of_int d / of_int total_words),
                anxiety = min 100 (500 * of_int a / of_int total_words),
                stress = min 100 (500 * of_int s / of_int total_words),
                confidence = spec_keyword_confidence (d + a + s)\<rparr> \<and>
         (10 \<le> d + a + s \<longrightarrow> spec_keyword_confidence (d + a + s) = 1)"
proof -
  have ne: "keyword_results \<noteq> []" using assms(1) by auto
  have g: "dict_get keyword_results ''depression_indicators'' 0 = d"
          "dict_get keyword_results ''anxiety_indicators'' 0 = a"
          "dict_get keyword_results ''stress_indicators'' 0 = s"
          "dict_get keyword_results ''total_words'' 1 = total_words"
    using assms by (simp_all add: dict_get_def)
  have 1: "convert_keywords_to_scores keyword_results =
           Inr \<lparr>condition_depression = spec_keyword_score d total_words,
                condition_anxiety = spec_keyword_score a total_words,
                condition_stress = spec_keyword_score s total_words\<rparr>"
    using assms(5)
    by (simp add: convert_keywords_to_scores_def g Let_def spec_keyword_score_def
        min.commute mult.commute)
  have 2: "process_keyword_results keyword_results =
           Inr \<lparr>depression = min 100 (500 * of_int d / of_int total_words),
                anxiety = min 100 (500 * of_int a / of_int total_words),
                stress = min 100 (500 * of_int s / of_int total_words),
                confidence = spec_keyword_confidence (d + a + s)\<rparr>"
    using assms(5) ne
    by (simp add: process_keyword_results_def g Let_def spec_keyword_confidence_def
        min.commute mult.commute)
  have 3: "10 \<le> d + a + s \<longrightarrow> spec_keyword_confidence (d + a + s) = 1"
  proof
    assume "10 \<le> d + a + s"
    then have "(10::rat) \<le> of_int (d + a + s)" by (metis of_int_le_iff of_int_numeral)
    then show "spec_keyword_confidence (d + a + s) = 1"
      by (simp add: spec_keyword_confidence_def)
  qed
  from 1 2 3 show ?thesis by blast
qed

theorem keyword_scores_witness:
  "convert_keywords_to_scores
     [(''depression_indicators'', 1), (''anxiety_indicators'', 2), (''stress_indicators'', 8),
      (''total_words'', 10)] =
     Inr \<lparr>condition_depression = 20, condition_anxiety = 40, condition_stress = 100\<rparr> \<and>
   process_keyword_results
     [(''depression_indicators'', 1), (''anxiety_indicators'', 2), (''stress_indicators'', 8),
      (''total_words'', 10)] =
     Inr \<lparr>depression = 50, anxiety = 100, stress = 100, confidence = 1\<rparr>"
  using keyword_scores[of "[(''depression_indicators'', 1), (''anxiety_indicators'', 2),
      (''stress_indicators'', 8), (''total_words'', 10)]" 1 2 8 10]
  by (simp add: spec_keyword_score_def spec_keyword_confidence_def)

text \<open>
  C7, as the specification words it, fails on the weighted AI engine: one depression
  keyword in ten words scores 50 there, where \<open>min(100, 200 * 1 / 10)\<close> is 20.
\<close>

theorem keyword_scores_500:
  "process_keyword_results
     [(''depression_indicators'', 1), (''anxiety_indicators'', 0), (''stress_indicators'', 0),
      (''total_words'', 10)] =
     Inr \<lparr>depression = 50, anxiety = 0, stress = 0, confidence = 1 / 10\<rparr> \<and>
   spec_keyword_score 1 10 = 20"
  by (simp add: process_keyword_results_def dict_get_def spec_keyword_score_def Let_def)

section \<open>Properties of the severity classification and of the risk level\<close>

text \<open>
  On whole scores within 0 and 100 the look-up of the weighted AI engine finds the band
  of the threshold table.
\<close>

lemma score_to_severity_int:
  "0 \<le> n \<Longrightarrow> n \<le> 100 \<Longrightarrow>
   score_to_severity (of_int n) Depression =
     (if n \<le> 9 then Normal else if n \<le> 13 then Mild else if n \<le> 20 then Moderate
      else if n \<le> 27 then Severe else Extremely_severe)"
  by (auto simp: score_to_severity_def)

text \<open>
  C2 on the code: the bands are closed intervals between whole numbers, so a score
  strictly between two bands is in none of them and takes the fallback. Depression 27 is
  severe and 28 is extremely severe, but 27.5 is classified normal; a voice result with
  depression score 27.5 and confidence 1 is fused to 27.5 and reported as normal.
\<close>

theorem score_to_severity_gap:
  "score_to_severity 27 Depression = Severe \<and>
   score_to_severity (55 / 2) Depression = Normal \<and>
   score_to_severity 28 Depression = Extremely_severe \<and>
   fused_score (calculate_comprehensive_scores
      (Some [(''depression'', [(''score'', 55 / 2), (''confidence'', 1)])]) None None None)
     Depression = Some (55 / 2) \<and>
   fused_severity (calculate_comprehensive_scores
      (Some [(''depression'', [(''score'', 55 / 2), (''confidence'', 1)])]) None None None)
     Depression = Some Normal"
  by (simp add: score_to_severity_def calculate_comprehensive_scores_def process_voice_results_def
      dict_get_def zero_component_def calculate_weighted_scores_def component_weights_def Let_def
      py_round_def round_half_even_def floor_divide_numeral)

text \<open>
  C5. \<^verbatim>\<open>_assess_risk_level\<close> takes the worst of the three domain severities (one of
  the three, and at least as severe as each of them), maps normal and mild to low,
  moderate to medium, severe to high and extremely severe to critical, and sets
  \<^verbatim>\<open>requires_attention\<close> exactly when that risk is medium, high or critical.
\<close>

theorem assess_risk_level_worst:
  "highest_severity (assess_risk_level fs) \<in>
      {key_or_normal (depression_severity fs), key_or_normal (anxiety_severity fs),
       key_or_normal (stress_severity fs)} \<and>
   severity_rank (key_or_normal (depression_severity fs))
      \<le> severity_rank (highest_severity (assess_risk_level fs)) \<and>
   severity_rank (key_or_normal (anxiety_severity fs))
      \<le> severity_rank (highest_severity (assess_risk_level fs)) \<and>
   severity_rank (key_or_normal (stress_severity fs))
      \<le> severity_rank (highest_severity (assess_risk_level fs)) \<and>
   (highest_severity (assess_risk_level fs) \<in> {Normal, Mild}
      \<longrightarrow> overall_risk (assess_risk_level fs) = Low) \<and>
   (highest_severity (assess_risk_level fs) = Moderate
      \<longrightarrow> overall_risk (assess_risk_level fs) = Medium) \<and>
   (highest_severity (assess_risk_level fs) = Severe
      \<longrightarrow> overall_risk (assess_risk_level fs) = High) \<and>
   (highest_severity (assess_risk_level fs) = Extremely_severe
      \<longrightarrow> overall_risk (assess_risk_level fs) = Critical) \<and>
   (requires_attention (assess_risk_level fs)
      \<longleftrightarrow> overall_risk (assess_risk_level fs) \<in> {Medium, High, Critical})"
proof -
  obtain d a s where k: "key_or_normal (depression_severity fs) = d"
    "key_or_normal (anxiety_severity fs) = a" "key_or_normal (stress_severity fs) = s" by blast
  have r: "assess_risk_level fs =
     (let overall_severity = severity_levels !
             foldr max (map (index_of severity_levels) [d, a, s]) 0
      in \<lparr>overall_risk = risk_mapping overall_severity,
          highest_severity = overall_severity,
          requires_attention = (overall_severity \<in> set [Moderate, Severe, Extremely_severe])\<rparr>)"
    using k by (cases "depression_severity fs"; cases "anxiety_severity fs";
                cases "stress_severity fs") (simp_all add: assess_risk_level_def Let_def)
  show ?thesis unfolding k r
    by (cases d; cases a; cases s) (simp_all add: severity_levels_def Let_def)
qed

theorem assess_risk_level_worst_witness:
  "highest_severity (assess_risk_level mild_severe_normal) = Severe \<and>
   overall_risk (assess_risk_level mild_severe_normal) = High \<and>
   requires_attention (assess_risk_level mild_severe_normal)"
  using assess_risk_level_worst[of mild_severe_normal]
  by (simp add: mild_severe_normal_def assess_risk_level_def severity_levels_def Let_def)

section \<open>Properties of the recommendation generators\<close>

lemma set_fromkeys: "set (fromkeys seen xs) = set seen \<union> set xs"
  by (induction xs arbitrary: seen) auto

lemma distinct_fromkeys: "distinct seen \<Longrightarrow> distinct (fromkeys seen xs)"
  by (induction xs arbitrary: seen) auto

lemma fromkeys_Nil: "fromkeys [] xs = [] \<longleftrightarrow> xs = []"
  using set_fromkeys[of "[]" xs] by (metis set_empty sup_bot_left)

lemma category_loop_nonempty:
  "category_loop cs recs = Inr r \<Longrightarrow> recs \<noteq> [] \<Longrightarrow> r \<noteq> []"
  by (induction cs recs rule: category_loop.induct) (auto split: if_splits)

lemma base_recommendations_nonempty: "base_recommendations sl \<noteq> []"
  by (simp add: base_recommendations_def)

lemma generate_recommendations_try_props:
  assumes "generate_recommendations_try sl cs fa = Inr r"
  shows "distinct r \<and> r \<noteq> [] \<and> length r \<le> 8"
proof -
  from assms obtain recs recs' where
    1: "category_loop cs (base_recommendations sl) = Inr recs" and
    2: "r = take 8 (fromkeys [] recs')" and
    3: "recs' = recs \<or> (\<exists>de. recs' = recs @ emotion_advice de)"
    by (auto simp: generate_recommendations_try_def split: sum.splits option.splits if_splits)
  from category_loop_nonempty[OF 1 base_recommendations_nonempty] 3 have "recs' \<noteq> []" by auto
  then have "fromkeys [] recs' \<noteq> []" by (simp add: fromkeys_Nil)
  with 2 show ?thesis by (simp add: distinct_fromkeys)
qed

lemma generate_recommendations_props:
  "distinct (generate_recommendations sl cs fa) \<and> generate_recommendations sl cs fa \<noteq> [] \<and>
   length (generate_recommendations sl cs fa) \<le> 8"
proof (cases "generate_recommendations_try sl cs fa")
  case (Inl e)
  then show ?thesis by (simp add: generate_recommendations_def)
next
  case (Inr r)
  with generate_recommendations_try_props[OF Inr] show ?thesis
    by (simp add: generate_recommendations_def)
qed

text \<open>
  The texts of two different categories differ, whatever the severities.
\<close>

lemma texts_neq:
  "c \<noteq> c' \<Longrightarrow>
     severe_text c \<noteq> severe_text c' \<and> severe_text c \<noteq> moderate_text c' \<and>
     severe_text c \<noteq> mild_text c' \<and> moderate_text c \<noteq> severe_text c' \<and>
     moderate_text c \<noteq> moderate_text c' \<and> moderate_text c \<noteq> mild_text c' \<and>
     mild_text c \<noteq> severe_text c' \<and> mild_text c \<noteq> moderate_text c' \<and>
     mild_text c \<noteq> mild_text c'"
  by (cases c; cases c') (simp_all add: severe_text_def moderate_text_def mild_text_def)

lemma set_category_recommendation:
  "set (category_recommendation fs c) \<subseteq> {severe_text c, moderate_text c, mild_text c}"
  by (auto simp: category_recommendation_def Let_def split: if_splits)

lemma category_recommendation_length: "length (category_recommendation fs c) \<le> 1"
  by (simp add: category_recommendation_def Let_def)

lemma category_recommendation_distinct: "distinct (category_recommendation fs c)"
  by (simp add: category_recommendation_def Let_def)

lemma category_recommendation_disjoint:
  assumes ne: "c \<noteq> c'"
  shows "set (category_recommendation fs c) \<inter> set (category_recommendation fs c') = {}"
proof -
  have False if x: "x \<in> set (category_recommendation fs c)"
    and y: "x \<in> set (category_recommendation fs c')" for x
  proof -
    from x set_category_recommendation[of fs c]
    have 1: "x = severe_text c \<or> x = moderate_text c \<or> x = mild_text c" by auto
    from y set_category_recommendation[of fs c']
    have 2: "x = severe_text c' \<or> x = moderate_text c' \<or> x = mild_text c'" by auto
    from 1 2 texts_neq[OF ne] show False by metis
  qed
  then show ?thesis by blast
qed

lemma generate_recommendations_engine_props:
  "distinct (generate_recommendations_engine fs) \<and> generate_recommendations_engine fs \<noteq> [] \<and>
   length (generate_recommendations_engine fs) \<le> 8"
proof -
  let ?r = "category_recommendation fs Depression @ category_recommendation fs Anxiety @
            category_recommendation fs Stress"
  have d: "distinct ?r"
    using category_recommendation_disjoint[of Depression Anxiety fs]
          category_recommendation_disjoint[of Depression Stress fs]
          category_recommendation_disjoint[of Anxiety Stress fs]
    by (simp add: category_recommendation_distinct Int_Un_distrib)
  have l: "length ?r \<le> 8"
    using category_recommendation_length[of fs Depression]
          category_recommendation_length[of fs Anxiety]
          category_recommendation_length[of fs Stress] by simp
  have e: "generate_recommendations_engine fs =
      (if ?r = [] then [''Mental health indicators appear normal - continue healthy practices'']
       else ?r)"
    by (simp add: generate_recommendations_engine_def Let_def)
  show ?thesis
  proof (cases "?r = []")
    case True
    then show ?thesis unfolding e by simp
  next
    case False
    then show ?thesis unfolding e using d l by simp
  qed
qed

text \<open>
  C6. For every stress level, category scores and facial analysis,
  \<^verbatim>\<open>generate_recommendations\<close> of the assessment service returns a list without
  duplicates, not empty and of at most 8 entries, also when the \<^verbatim>\<open>except\<close> clause
  answers; and for every \<^verbatim>\<open>final_scores\<close>, \<^verbatim>\<open>_generate_recommendations\<close> of the
  weighted AI engine returns such a list too. Both are functions of their arguments
  alone, so equal inputs give equal lists.
\<close>

theorem recommendations_bounded:
  "distinct (generate_recommendations stress_level category_scores facial_analysis) \<and>
   generate_recommendations stress_level category_scores facial_analysis \<noteq> [] \<and>
   length (generate_recommendations stress_level category_scores facial_analysis) \<le> 8 \<and>
   distinct (generate_recommendations_engine fs) \<and>
   generate_recommendations_engine fs \<noteq> [] \<and>
   length (generate_recommendations_engine fs) \<le> 8"
  using generate_recommendations_props[of stress_level category_scores facial_analysis]
        generate_recommendations_engine_props[of fs]
  by simp

text \<open>
  At a high stress level with five categories at 70 percent or above and an angry face,
  ten recommendations are collected and the first 8 are returned.
\<close>

theorem recommendations_bounded_witness:
  "length (generate_recommendations ''high''
      [(''academic'', Scores (Some 70)), (''social'', Scores (Some 80)),
       (''financial'', Scores (Some 90)), (''health'', Scores (Some 75)),
       (''work'', Scores (Some 100))]
      (Some [Emotion (Some ''angry'')])) = 8 \<and>
   generate_recommendations_engine mild_severe_normal =
     [''Monitor depression levels and practice self-care techniques'',
      ''Immediate professional consultation recommended for anxiety'']"
proof -
  have "length (generate_recommendations ''high''
      [(''academic'', Scores (Some 70)), (''social'', Scores (Some 80)),
       (''financial'', Scores (Some 90)), (''health'', Scores (Some 75)),
       (''work'', Scores (Some 100))]
      (Some [Emotion (Some ''angry'')])) \<le> 8"
    using recommendations_bounded by blast
  moreover have "8 \<le> length (generate_recommendations ''high''
      [(''academic'', Scores (Some 70)), (''social'', Scores (Some 80)),
       (''financial'', Scores (Some 90)), (''health'', Scores (Some 75)),
       (''work'', Scores (Some 100))]
      (Some [Emotion (Some ''angry'')]))"
    by (simp add: generate_recommendations_def generate_recommendations_try_def
        base_recommendations_def category_advice_def emotion_advice_def)
  moreover have "generate_recommendations_engine mild_severe_normal =
     [''Monitor depression levels and practice self-care techniques'',
      ''Immediate professional consultation recommended for anxiety'']"
    by (simp add: generate_recommendations_engine_def category_recommendation_def
        mild_severe_normal_def severe_text_def moderate_text_def mild_text_def Let_def)
  ultimately show ?thesis by simp
qed

end
